theory Spec2Isabelle
  imports Main "HOL-Library.Word"
begin

section \<open>The JNI binding of the whisper speech-recognition library\<close>

text \<open>
  Source: \<^verbatim>\<open>src/native/jni/whisper_jni.cpp\<close>. The file defines one static variable
  (\<^verbatim>\<open>g_n_threads\<close>) and three native methods: \<^verbatim>\<open>initContext\<close>, \<^verbatim>\<open>transcribeAudio\<close> and
  \<^verbatim>\<open>releaseContext\<close>. Everything else it touches is foreign code: the functions of
  \<^verbatim>\<open>whisper.h\<close> and the functions of \<^verbatim>\<open>JNIEnv\<close>. The library is a parameter of the model
  (a record of functions over a library state of any type), so every theorem holds for
  every behaviour of the library. The few \<^verbatim>\<open>JNIEnv\<close> functions that the file calls are
  written out as the JNI specification describes them.
\<close>

subsection \<open>Scalar types\<close>

text \<open>
  \<^verbatim>\<open>jint\<close>, \<^verbatim>\<open>jsize\<close> and C's \<^verbatim>\<open>int\<close> are 32-bit two's complement integers, \<^verbatim>\<open>jlong\<close> is a 64-bit
  one. A \<^verbatim>\<open>jfloat\<close> is kept as its 32-bit pattern: the binding only moves samples, it never
  computes with one. A \<^verbatim>\<open>jboolean\<close> coming from Java is \<^verbatim>\<open>JNI_TRUE\<close> or \<^verbatim>\<open>JNI_FALSE\<close>. A
  \<^verbatim>\<open>jstring\<close> stands for the bytes of the (immutable) Java string in modified UTF-8; a
  \<^verbatim>\<open>jfloatArray\<close> is a reference to a \<^verbatim>\<open>float[]\<close> object of the Java heap.
\<close>

type_synonym jint = "32 word"
type_synonym jsize = "32 word"
type_synonym jlong = "64 word"
type_synonym jfloat = "32 word"
type_synonym jboolean = bool
type_synonym jstring = string
type_synonym jfloatArray = nat

text \<open>
  A \<^verbatim>\<open>whisper_context*\<close> is an address of a 64-bit ABI (arm64-v8a, x86_64), where
  \<^verbatim>\<open>reinterpret_cast\<close> between the pointer and \<^verbatim>\<open>jlong\<close> keeps every bit.
\<close>

datatype whisper_context_ptr = Ptr (address: "64 word")

definition nullptr :: whisper_context_ptr where
  "nullptr = Ptr 0"

definition reinterpret_cast_jlong :: "whisper_context_ptr \<Rightarrow> jlong" where
  "reinterpret_cast_jlong p = address p"

definition reinterpret_cast_ctx :: "jlong \<Rightarrow> whisper_context_ptr" where
  "reinterpret_cast_ctx h = Ptr h"

subsection \<open>The JNI environment\<close>

text \<open>
  The state behind \<^verbatim>\<open>JNIEnv* env\<close>, as far as the binding can reach it: the \<^verbatim>\<open>float[]\<close>
  objects of the Java heap, the native buffers that \<^verbatim>\<open>Get...\<close> calls have handed out and that
  are not released yet (by address), the pending Java exception, if any, and the calls of
  the buffer functions made so far, in the order they were made (a \<^verbatim>\<open>Get...\<close> call with the
  pointer it returned, a \<^verbatim>\<open>Release...\<close> call with its arguments). Allocation is taken to
  succeed: the source never tests a returned pointer for \<^verbatim>\<open>NULL\<close>.
\<close>

type_synonym addr = nat

datatype native_buffer =
    FloatElements jfloatArray "jfloat list"
  | UTFChars string

datatype release_mode = JNI_COPY_AND_FREE | JNI_COMMIT | JNI_ABORT

datatype env_call =
    Env_GetFloatArrayElements jfloatArray addr
  | Env_ReleaseFloatArrayElements jfloatArray addr release_mode
  | Env_GetStringUTFChars jstring addr
  | Env_ReleaseStringUTFChars jstring addr

record JNIEnv =
  float_arrays :: "jfloatArray \<Rightarrow> jfloat list"
  native_buffers :: "(addr \<times> native_buffer) list"
  pending_exception :: "string option"
  env_calls :: "env_call list"

definition fresh_addr :: "(addr \<times> native_buffer) list \<Rightarrow> addr" where
  "fresh_addr bs = Suc (fold max (map fst bs) 0)"

definition free_buffer :: "addr \<Rightarrow> (addr \<times> native_buffer) list \<Rightarrow> (addr \<times> native_buffer) list" where
  "free_buffer p bs = filter (\<lambda>b. fst b \<noteq> p) bs"

definition GetArrayLength :: "JNIEnv \<Rightarrow> jfloatArray \<Rightarrow> jsize" where
  "GetArrayLength e a = word_of_nat (length (float_arrays e a))"

text \<open>\<^verbatim>\<open>GetFloatArrayElements(array, nullptr)\<close>: a native buffer holding the elements.\<close>

definition GetFloatArrayElements :: "JNIEnv \<Rightarrow> jfloatArray \<Rightarrow> addr \<times> JNIEnv" where
  "GetFloatArrayElements e a =
     (let p = fresh_addr (native_buffers e)
      in (p, e\<lparr>native_buffers := (p, FloatElements a (float_arrays e a)) # native_buffers e,
               env_calls := env_calls e @ [Env_GetFloatArrayElements a p]\<rparr>))"

text \<open>
  \<^verbatim>\<open>ReleaseFloatArrayElements(array, elems, mode)\<close>: mode 0 copies the buffer back and frees
  it, \<^verbatim>\<open>JNI_COMMIT\<close> copies back and keeps it, \<^verbatim>\<open>JNI_ABORT\<close> frees it and copies nothing.
\<close>

definition ReleaseFloatArrayElements ::
  "JNIEnv \<Rightarrow> jfloatArray \<Rightarrow> addr \<Rightarrow> release_mode \<Rightarrow> JNIEnv" where
  "ReleaseFloatArrayElements e a p m =
     (let e0 = e\<lparr>env_calls := env_calls e @ [Env_ReleaseFloatArrayElements a p m]\<rparr>
      in case map_of (native_buffers e0) p of
           Some (FloatElements a' xs) \<Rightarrow>
             (let e1 = (if m = JNI_ABORT then e0
                        else e0\<lparr>float_arrays := (float_arrays e0)(a := xs)\<rparr>)
              in if m = JNI_COMMIT then e1
                 else e1\<lparr>native_buffers := free_buffer p (native_buffers e1)\<rparr>)
         | Some (UTFChars cs) \<Rightarrow> e0
         | None \<Rightarrow> e0)"

definition GetStringUTFChars :: "JNIEnv \<Rightarrow> jstring \<Rightarrow> addr \<times> JNIEnv" where
  "GetStringUTFChars e js =
     (let p = fresh_addr (native_buffers e)
      in (p, e\<lparr>native_buffers := (p, UTFChars js) # native_buffers e,
               env_calls := env_calls e @ [Env_GetStringUTFChars js p]\<rparr>))"

definition ReleaseStringUTFChars :: "JNIEnv \<Rightarrow> jstring \<Rightarrow> addr \<Rightarrow> JNIEnv" where
  "ReleaseStringUTFChars e js p =
     (let e0 = e\<lparr>env_calls := env_calls e @ [Env_ReleaseStringUTFChars js p]\<rparr>
      in case map_of (native_buffers e0) p of
           Some (UTFChars cs) \<Rightarrow> e0\<lparr>native_buffers := free_buffer p (native_buffers e0)\<rparr>
         | Some (FloatElements a xs) \<Rightarrow> e0
         | None \<Rightarrow> e0)"

definition NewStringUTF :: "JNIEnv \<Rightarrow> string \<Rightarrow> jstring" where
  "NewStringUTF e cs = cs"

text \<open>Reading native memory through a \<^verbatim>\<open>const char*\<close> and through a \<^verbatim>\<open>jfloat*\<close>.\<close>

definition c_str_at :: "JNIEnv \<Rightarrow> addr \<Rightarrow> string" where
  "c_str_at e p =
     (case map_of (native_buffers e) p of
        Some (UTFChars cs) \<Rightarrow> cs
      | Some (FloatElements a xs) \<Rightarrow> []
      | None \<Rightarrow> [])"

definition floats_at :: "JNIEnv \<Rightarrow> addr \<Rightarrow> jfloat list" where
  "floats_at e p =
     (case map_of (native_buffers e) p of
        Some (FloatElements a xs) \<Rightarrow> xs
      | Some (UTFChars cs) \<Rightarrow> []
      | None \<Rightarrow> [])"

subsection \<open>The external library\<close>

text \<open>
  \<^verbatim>\<open>whisper.h\<close> is not part of the repository. Of its two parameter structs the binding
  names \<^verbatim>\<open>use_gpu\<close>, and \<^verbatim>\<open>n_threads\<close>, \<^verbatim>\<open>translate\<close> and \<^verbatim>\<open>language\<close>; all other fields are
  one opaque component. \<^verbatim>\<open>language\<close> is a \<^verbatim>\<open>const char*\<close> and \<^verbatim>\<open>samples\<close> a \<^verbatim>\<open>const float*\<close>:
  the library reads them, so the model passes what they point to. The library's own state
  has any type \<open>'l\<close>. The two accessors of the decode result read that state.
\<close>

datatype whisper_sampling_strategy = WHISPER_SAMPLING_GREEDY | WHISPER_SAMPLING_BEAM_SEARCH

record 'c whisper_context_params =
  use_gpu :: bool
  cparams_other :: 'c

record 'o whisper_full_params =
  n_threads :: jint
  translate :: bool
  language :: string
  wparams_other :: 'o

record ('l, 'c, 'o) whisper_library =
  whisper_context_default_params :: "'c whisper_context_params"
  whisper_init_from_file_with_params ::
    "string \<Rightarrow> 'c whisper_context_params \<Rightarrow> 'l \<Rightarrow> whisper_context_ptr \<times> 'l"
  whisper_full_default_params :: "whisper_sampling_strategy \<Rightarrow> 'o whisper_full_params"
  whisper_full ::
    "whisper_context_ptr \<Rightarrow> 'o whisper_full_params \<Rightarrow> jfloat list \<Rightarrow> jint \<Rightarrow> 'l \<Rightarrow> jint \<times> 'l"
  whisper_full_n_segments :: "whisper_context_ptr \<Rightarrow> 'l \<Rightarrow> jint"
  whisper_full_get_segment_text :: "whisper_context_ptr \<Rightarrow> jint \<Rightarrow> 'l \<Rightarrow> string"
  whisper_free :: "whisper_context_ptr \<Rightarrow> 'l \<Rightarrow> 'l"

subsection \<open>The binding\<close>

text \<open>
  The process state: the static \<^verbatim>\<open>g_n_threads\<close> (line 13), the JNI environment, the
  library's state, and the Android log. \<^verbatim>\<open>LOGI\<close> and \<^verbatim>\<open>LOGE\<close> (lines 8-9) are defined and
  used nowhere, so no function below writes the log.
\<close>

record 'l process =
  g_n_threads :: jint
  jni_env :: JNIEnv
  whisper_state :: 'l
  android_log :: "string list"

text \<open>The state when the shared object is loaded: \<^verbatim>\<open>static int g_n_threads = 4;\<close>\<close>

definition loaded :: "JNIEnv \<Rightarrow> 'l \<Rightarrow> 'l process" where
  "loaded e l = \<lparr>g_n_threads = 4, jni_env = e, whisper_state = l, android_log = []\<rparr>"

text \<open>Lines 15-33.\<close>

definition initContext ::
  "('l, 'c, 'o) whisper_library \<Rightarrow> 'l process \<Rightarrow> jstring \<Rightarrow> jint \<Rightarrow> jlong \<times> 'l process" where
  "initContext L s model_path n_threads_arg =
     (let s1 = s\<lparr>g_n_threads := (if 0 < sint n_threads_arg then n_threads_arg else 4)\<rparr>;
          (path, e1) = GetStringUTFChars (jni_env s1) model_path;
          cparams = whisper_context_default_params L;
          cparams = cparams\<lparr>use_gpu := False\<rparr>;
          (ctx, l1) = whisper_init_from_file_with_params L (c_str_at e1 path) cparams
                        (whisper_state s1);
          e2 = ReleaseStringUTFChars e1 model_path path
      in (reinterpret_cast_jlong ctx, s1\<lparr>jni_env := e2, whisper_state := l1\<rparr>))"

text \<open>
  Lines 65-68, the loop over the segments: \<^verbatim>\<open>i\<close> and \<^verbatim>\<open>n_segments\<close> are C \<^verbatim>\<open>int\<close>s, compared as
  signed values; \<^verbatim>\<open>++i\<close> is the 32-bit increment.
\<close>

function segments_loop ::
  "('l, 'c, 'o) whisper_library \<Rightarrow> whisper_context_ptr \<Rightarrow> 'l \<Rightarrow> jint \<Rightarrow> jint \<Rightarrow> string \<Rightarrow> string" where
  "segments_loop L ctx l n_segments i transcription =
     (if sint i < sint n_segments
      then segments_loop L ctx l n_segments (i + 1)
             ((transcription @ whisper_full_get_segment_text L ctx i l) @ '' '')
      else transcription)"
  by pat_completeness auto
termination
  apply (relation "measure (\<lambda>(L, ctx, l, n, i, t). nat (sint n - sint i))")
   apply simp
  subgoal for L ctx l n_segments i transcription
    using sint_lt [of n_segments] sint_ge [of i]
    by (simp add: sint_word_ariths signed_take_bit_int_eq_self)
  done

text \<open>Lines 35-75. \<^verbatim>\<open>sample_rate\<close> is a parameter that the body never uses.\<close>

definition transcribeAudio ::
  "('l, 'c, 'o) whisper_library \<Rightarrow> 'l process \<Rightarrow> jlong \<Rightarrow> jfloatArray \<Rightarrow> jint \<Rightarrow> jstring \<Rightarrow>
     jboolean \<Rightarrow> jstring \<times> 'l process" where
  "transcribeAudio L s context_ptr audio_data sample_rate language_arg translate_arg =
     (let ctx = reinterpret_cast_ctx context_ptr;
          audio_length = GetArrayLength (jni_env s) audio_data;
          (audio, e1) = GetFloatArrayElements (jni_env s) audio_data;
          wparams = whisper_full_default_params L WHISPER_SAMPLING_GREEDY;
          wparams = wparams\<lparr>n_threads := g_n_threads s\<rparr>;
          wparams = wparams\<lparr>translate := translate_arg\<rparr>;
          (lang, e2) = GetStringUTFChars e1 language_arg;
          wparams = wparams\<lparr>language := c_str_at e2 lang\<rparr>;
          (result, l1) = whisper_full L ctx wparams (floats_at e2 audio) audio_length
                           (whisper_state s);
          transcription =
            (if result = 0
             then segments_loop L ctx l1 (whisper_full_n_segments L ctx l1) 0 []
             else []);
          e3 = ReleaseFloatArrayElements e2 audio_data audio JNI_ABORT;
          e4 = ReleaseStringUTFChars e3 language_arg lang
      in (NewStringUTF e4 transcription, s\<lparr>jni_env := e4, whisper_state := l1\<rparr>))"

text \<open>Lines 77-85.\<close>

definition releaseContext :: "('l, 'c, 'o) whisper_library \<Rightarrow> 'l process \<Rightarrow> jlong \<Rightarrow> 'l process" where
  "releaseContext L s context_ptr =
     (let ctx = reinterpret_cast_ctx context_ptr
      in s\<lparr>whisper_state := whisper_free L ctx (whisper_state s)\<rparr>)"

subsection \<open>Sequences of calls\<close>

text \<open>
  What the Java side can do with the three native methods: call them, one after the other.
  \<open>run\<close> performs a list of calls from left to right and keeps the process state.
\<close>

datatype jni_call =
    Call_initContext jstring jint
  | Call_transcribeAudio jlong jfloatArray jint jstring jboolean
  | Call_releaseContext jlong

fun native_method :: "('l, 'c, 'o) whisper_library \<Rightarrow> 'l process \<Rightarrow> jni_call \<Rightarrow> 'l process" where
  "native_method L s (Call_initContext model_path n) = snd (initContext L s model_path n)"
| "native_method L s (Call_transcribeAudio h a r lang tr) = snd (transcribeAudio L s h a r lang tr)"
| "native_method L s (Call_releaseContext h) = releaseContext L s h"

definition run :: "('l, 'c, 'o) whisper_library \<Rightarrow> 'l process \<Rightarrow> jni_call list \<Rightarrow> 'l process" where
  "run L s cs = foldl (native_method L) s cs"

subsection \<open>Observing the calls into the library\<close>

text \<open>
  The arguments that the binding hands to the library are observed by wrapping a library:
  \<open>recording L\<close> behaves as \<open>L\<close> does and appends every call of a state-changing function,
  with its arguments, to a list kept beside the state of \<open>L\<close>.
\<close>

datatype ('c, 'o) library_call =
    Init_call string "'c whisper_context_params"
  | Full_call whisper_context_ptr "'o whisper_full_params" "jfloat list" jint
  | Free_call whisper_context_ptr

definition recording ::
  "('l, 'c, 'o) whisper_library \<Rightarrow> ('l \<times> ('c, 'o) library_call list, 'c, 'o) whisper_library" where
  "recording L =
     \<lparr>whisper_context_default_params = whisper_context_default_params L,
      whisper_init_from_file_with_params =
        (\<lambda>path cparams st.
           (fst (whisper_init_from_file_with_params L path cparams (fst st)),
            (snd (whisper_init_from_file_with_params L path cparams (fst st)),
             snd st @ [Init_call path cparams]))),
      whisper_full_default_params = whisper_full_default_params L,
      whisper_full =
        (\<lambda>ctx wparams samples n_samples st.
           (fst (whisper_full L ctx wparams samples n_samples (fst st)),
            (snd (whisper_full L ctx wparams samples n_samples (fst st)),
             snd st @ [Full_call ctx wparams samples n_samples]))),
      whisper_full_n_segments = (\<lambda>ctx st. whisper_full_n_segments L ctx (fst st)),
      whisper_full_get_segment_text = (\<lambda>ctx i st. whisper_full_get_segment_text L ctx i (fst st)),
      whisper_free = (\<lambda>ctx st. (whisper_free L ctx (fst st), snd st @ [Free_call ctx]))\<rparr>"

definition calls :: "('l \<times> ('c, 'o) library_call list) process \<Rightarrow> ('c, 'o) library_call list" where
  "calls s = snd (whisper_state s)"

text \<open>The process of \<open>recording L\<close> without the list of calls: a process of \<open>L\<close>.\<close>

definition underlying ::
  "('l \<times> ('c, 'o) library_call list) process \<Rightarrow> 'l process" where
  "underlying s =
     \<lparr>g_n_threads = g_n_threads s, jni_env = jni_env s,
      whisper_state = fst (whisper_state s), android_log = android_log s\<rparr>"

subsection \<open>The two library invocations, by name\<close>

text \<open>
  The model load of line 28 and the decode of line 60, with the arguments that the binding
  builds for them (lines 23-26 and 45-57). \<open>calls_initContext\<close> and \<open>calls_transcribeAudio\<close>
  below prove that these are the calls the binding makes.
\<close>

definition load_params :: "('l, 'c, 'o) whisper_library \<Rightarrow> 'c whisper_context_params" where
  "load_params L = (whisper_context_default_params L)\<lparr>use_gpu := False\<rparr>"

definition library_load ::
  "('l, 'c, 'o) whisper_library \<Rightarrow> 'l process \<Rightarrow> jstring \<Rightarrow> whisper_context_ptr \<times> 'l" where
  "library_load L s model_path =
     whisper_init_from_file_with_params L model_path (load_params L) (whisper_state s)"

definition decode_params ::
  "('l, 'c, 'o) whisper_library \<Rightarrow> jint \<Rightarrow> jstring \<Rightarrow> jboolean \<Rightarrow> 'o whisper_full_params" where
  "decode_params L threads lang tr =
     (whisper_full_default_params L WHISPER_SAMPLING_GREEDY)
       \<lparr>n_threads := threads, translate := tr, language := lang\<rparr>"

definition library_decode ::
  "('l, 'c, 'o) whisper_library \<Rightarrow> 'l process \<Rightarrow> jlong \<Rightarrow> jfloatArray \<Rightarrow> jstring \<Rightarrow> jboolean \<Rightarrow>
     jint \<times> 'l" where
  "library_decode L s context_ptr audio_data lang tr =
     whisper_full L (reinterpret_cast_ctx context_ptr)
       (decode_params L (g_n_threads s) lang tr)
       (float_arrays (jni_env s) audio_data)
       (GetArrayLength (jni_env s) audio_data)
       (whisper_state s)"

text \<open>
  The calls of the buffer functions that each method makes, in order: lines 23 and 30 of
  \<^verbatim>\<open>initContext\<close>, and lines 48, 56, 71 and 72 of \<^verbatim>\<open>transcribeAudio\<close>.
  \<open>initContext_eq\<close> and \<open>transcribeAudio_eq\<close> below prove that these are the calls made.
\<close>

definition initContext_env_calls :: "JNIEnv \<Rightarrow> jstring \<Rightarrow> env_call list" where
  "initContext_env_calls e model_path =
     [Env_GetStringUTFChars model_path (fst (GetStringUTFChars e model_path)),
      Env_ReleaseStringUTFChars model_path (fst (GetStringUTFChars e model_path))]"

definition transcribeAudio_env_calls ::
  "JNIEnv \<Rightarrow> jfloatArray \<Rightarrow> jstring \<Rightarrow> env_call list" where
  "transcribeAudio_env_calls e a lang =
     [Env_GetFloatArrayElements a (fst (GetFloatArrayElements e a)),
      Env_GetStringUTFChars lang (fst (GetStringUTFChars (snd (GetFloatArrayElements e a)) lang)),
      Env_ReleaseFloatArrayElements a (fst (GetFloatArrayElements e a)) JNI_ABORT,
      Env_ReleaseStringUTFChars lang
        (fst (GetStringUTFChars (snd (GetFloatArrayElements e a)) lang))]"

text \<open>
  The segments of a finished decode, as the library reports them: the texts of the indices
  \<open>0, 1, ...\<close> below \<^verbatim>\<open>whisper_full_n_segments\<close>, in this order.
\<close>

definition decoded_segments ::
  "('l, 'c, 'o) whisper_library \<Rightarrow> whisper_context_ptr \<Rightarrow> 'l \<Rightarrow> string list" where
  "decoded_segments L ctx l =
     map (\<lambda>k. whisper_full_get_segment_text L ctx (word_of_nat k) l)
       [0..<nat (sint (whisper_full_n_segments L ctx l))]"

text \<open>
  The thread count that a list of calls has configured, in the words of the specification:
  the one of the most recent \<^verbatim>\<open>initContext\<close> call (4 when its argument is not positive),
  and the initial 4 when the list has no such call.
\<close>

fun last_init :: "jni_call list \<Rightarrow> jint option" where
  "last_init [] = None"
| "last_init (c # cs) =
     (case last_init cs of
        Some n \<Rightarrow> Some n
      | None \<Rightarrow> (case c of
                  Call_initContext model_path n \<Rightarrow> Some n
                | Call_transcribeAudio h a r lang tr \<Rightarrow> None
                | Call_releaseContext h \<Rightarrow> None))"

definition configured_thread_count :: "jni_call list \<Rightarrow> jint" where
  "configured_thread_count cs =
     (case last_init cs of
        None \<Rightarrow> 4
      | Some n \<Rightarrow> (if 0 < sint n then n else 4))"

subsection \<open>An example library and an example process\<close>

text \<open>
  A small library for the concrete instances of the theorems below. Its state is the list
  of segments of the last decode. It loads one model file, rejects a language tag it does
  not know with status \<open>-1\<close>, decodes fewer than three samples to no segment at all, and
  anything longer to two segments.
\<close>

definition example_library :: "(string list, unit, unit) whisper_library" where
  "example_library =
     \<lparr>whisper_context_default_params = \<lparr>use_gpu = True, cparams_other = ()\<rparr>,
      whisper_init_from_file_with_params =
        (\<lambda>path cparams l. (if path = ''ggml-tiny.bin'' then Ptr 4096 else nullptr, l)),
      whisper_full_default_params =
        (\<lambda>strategy. \<lparr>n_threads = 2, translate = False, language = ''en'', wparams_other = ()\<rparr>),
      whisper_full =
        (\<lambda>ctx wparams samples n_samples l.
           if language wparams \<noteq> ''en'' \<and> language wparams \<noteq> ''de'' then (- 1, l)
           else if length samples < 3 then (0, [])
           else (0, [''hello'', ''world''])),
      whisper_full_n_segments = (\<lambda>ctx l. word_of_nat (length l)),
      whisper_full_get_segment_text =
        (\<lambda>ctx i l. if nat (sint i) < length l then l ! nat (sint i) else []),
      whisper_free = (\<lambda>ctx l. [])\<rparr>"

definition example_env :: JNIEnv where
  "example_env =
     \<lparr>float_arrays = (\<lambda>a. if a = 7 then [1, 2, 3, 4] else []),
      native_buffers = [],
      pending_exception = None,
      env_calls = []\<rparr>"

definition example_process :: "string list process" where
  "example_process = loaded example_env []"

section \<open>Borrowed native buffers\<close>

lemma fold_max_ge: "(m::nat) \<le> fold max ks m"
proof (induction ks arbitrary: m)
  case Nil
  show ?case by simp
next
  case (Cons k ks)
  have "m \<le> max k m" by simp
  also have "\<dots> \<le> fold max ks (max k m)" by (rule Cons.IH)
  finally show ?case by simp
qed

lemma fold_max_upper: "k \<in> set ks \<Longrightarrow> (k::nat) \<le> fold max ks m"
proof (induction ks arbitrary: m)
  case Nil
  then show ?case by simp
next
  case (Cons x xs)
  show ?case
  proof (cases "k = x")
    case True
    have "k \<le> max x m" using True by simp
    also have "\<dots> \<le> fold max xs (max x m)" by (rule fold_max_ge)
    finally show ?thesis by simp
  next
    case False
    with Cons.prems have "k \<in> set xs" by simp
    then show ?thesis using Cons.IH by simp
  qed
qed

lemma fresh_addr_new: "fresh_addr bs \<notin> fst ` set bs"
proof
  assume "fresh_addr bs \<in> fst ` set bs"
  then have "fresh_addr bs \<in> set (map fst bs)" by simp
  then have "fresh_addr bs \<le> fold max (map fst bs) 0" by (rule fold_max_upper)
  then show False by (simp add: fresh_addr_def)
qed

lemma free_buffer_absent: "p \<notin> fst ` set bs \<Longrightarrow> free_buffer p bs = bs"
  by (induction bs) (auto simp: free_buffer_def)

lemma free_fresh: "free_buffer (fresh_addr bs) bs = bs"
  by (rule free_buffer_absent [OF fresh_addr_new])

lemma fresh_addr_Cons_neq: "fresh_addr ((p, b) # bs) \<noteq> p"
  using fresh_addr_new [of "(p, b) # bs"] by auto

lemma free_fresh_Cons: "free_buffer (fresh_addr (x # bs)) bs = bs"
proof (rule free_buffer_absent)
  show "fresh_addr (x # bs) \<notin> fst ` set bs"
    using fresh_addr_new [of "x # bs"] by auto
qed

text \<open>A string borrowed with \<^verbatim>\<open>GetStringUTFChars\<close> reads back as the Java string.\<close>

lemma c_str_at_GetStringUTFChars:
  "c_str_at (snd (GetStringUTFChars e js)) (fst (GetStringUTFChars e js)) = js"
  by (simp add: GetStringUTFChars_def c_str_at_def Let_def)

lemma Release_GetStringUTFChars:
  "ReleaseStringUTFChars (snd (GetStringUTFChars e js)) js (fst (GetStringUTFChars e js)) =
     e\<lparr>env_calls := env_calls e @ initContext_env_calls e js\<rparr>"
  by (simp add: GetStringUTFChars_def ReleaseStringUTFChars_def initContext_env_calls_def Let_def
      free_buffer_def free_fresh [unfolded free_buffer_def])

text \<open>
  The two borrows of \<^verbatim>\<open>transcribeAudio\<close> (lines 48 and 56): while both buffers are out, each
  reads as what was borrowed; after the two releases (lines 71-72) the environment is the
  one before the borrows, with the four calls added to its list of calls.
\<close>

lemma floats_at_borrowed:
  "floats_at (snd (GetStringUTFChars (snd (GetFloatArrayElements e a)) js))
     (fst (GetFloatArrayElements e a)) = float_arrays e a"
  by (simp add: GetStringUTFChars_def GetFloatArrayElements_def floats_at_def Let_def
      fresh_addr_Cons_neq [symmetric])

lemma release_both:
  "ReleaseStringUTFChars
     (ReleaseFloatArrayElements (snd (GetStringUTFChars (snd (GetFloatArrayElements e a)) js))
        a (fst (GetFloatArrayElements e a)) JNI_ABORT)
     js (fst (GetStringUTFChars (snd (GetFloatArrayElements e a)) js)) =
   e\<lparr>env_calls := env_calls e @ transcribeAudio_env_calls e a js\<rparr>"
proof -
  let ?bs = "native_buffers e"
  let ?p = "fresh_addr ?bs"
  let ?F = "FloatElements a (float_arrays e a)"
  let ?q = "fresh_addr ((?p, ?F) # ?bs)"
  have neq: "?q \<noteq> ?p" by (rule fresh_addr_Cons_neq)
  have free_p: "free_buffer ?p ((?q, UTFChars js) # (?p, ?F) # ?bs) = (?q, UTFChars js) # ?bs"
    using neq free_fresh [of ?bs] by (simp add: free_buffer_def)
  have free_q: "free_buffer ?q ((?q, UTFChars js) # ?bs) = ?bs"
    using free_fresh_Cons [of "(?p, ?F)" ?bs] by (simp add: free_buffer_def)
  have e3: "ReleaseFloatArrayElements
              (snd (GetStringUTFChars (snd (GetFloatArrayElements e a)) js))
              a (fst (GetFloatArrayElements e a)) JNI_ABORT
            = e\<lparr>native_buffers := (?q, UTFChars js) # ?bs,
                env_calls := env_calls e @
                  [Env_GetFloatArrayElements a ?p, Env_GetStringUTFChars js ?q,
                   Env_ReleaseFloatArrayElements a ?p JNI_ABORT]\<rparr>"
    using neq free_p
    by (simp add: GetStringUTFChars_def GetFloatArrayElements_def
        ReleaseFloatArrayElements_def Let_def)
  show ?thesis
    unfolding e3 using free_q
    by (simp add: GetStringUTFChars_def GetFloatArrayElements_def
        ReleaseStringUTFChars_def transcribeAudio_env_calls_def Let_def)
qed

section \<open>The segment loop\<close>

declare segments_loop.simps [simp del]

lemma sint_succ_below:
  fixes i n :: jint
  assumes "sint i < sint n"
  shows "sint (i + 1) = sint i + 1"
proof -
  have "sint n < 2 ^ 31"
    using sint_lt [of n] by simp
  with assms have "sint i + 1 < 2 ^ 31" by simp
  moreover have "- (2 ^ 31) \<le> sint i"
    using sint_ge [of i] by simp
  ultimately show ?thesis
    by (simp add: sint_word_ariths signed_take_bit_int_eq_self)
qed

lemma word_of_nat_sint:
  fixes i :: jint
  assumes "0 \<le> sint i"
  shows "word_of_nat (nat (sint i)) = i"
proof -
  have "(word_of_nat (nat (sint i)) :: jint) = word_of_int (sint i)"
    using assms by (rule of_nat_nat)
  then show ?thesis by simp
qed

text \<open>
  From index \<open>i\<close> on, the loop appends the text of every segment \<open>i, i + 1, ...\<close> below
  \<open>n_segments\<close>, each followed by one space, in this order.
\<close>

lemma segments_loop_from:
  "0 \<le> sint i \<Longrightarrow>
   segments_loop L ctx l n i t =
     t @ concat (map (\<lambda>k. whisper_full_get_segment_text L ctx (word_of_nat k) l @ '' '')
                   [nat (sint i)..<nat (sint n)])"
proof (induction L ctx l n i t rule: segments_loop.induct)
  case (1 L ctx l n i t)
  show ?case
  proof (cases "sint i < sint n")
    case True
    have succ: "sint (i + 1) = sint i + 1" using True by (rule sint_succ_below)
    have pos: "0 \<le> sint (i + 1)" using "1.prems" succ by simp
    have nat_succ: "nat (sint (i + 1)) = Suc (nat (sint i))"
      using "1.prems" succ by simp
    have upt: "[nat (sint i)..<nat (sint n)] = nat (sint i) # [Suc (nat (sint i))..<nat (sint n)]"
      using True "1.prems" by (simp add: upt_conv_Cons)
    have "segments_loop L ctx l n i t =
          segments_loop L ctx l n (i + 1) ((t @ whisper_full_get_segment_text L ctx i l) @ '' '')"
      using True by (subst segments_loop.simps) simp
    also have "\<dots> = ((t @ whisper_full_get_segment_text L ctx i l) @ '' '') @
          concat (map (\<lambda>k. whisper_full_get_segment_text L ctx (word_of_nat k) l @ '' '')
                    [nat (sint (i + 1))..<nat (sint n)])"
      using True pos by (rule "1.IH")
    finally show ?thesis
      using word_of_nat_sint [OF "1.prems"] by (simp add: upt nat_succ)
  next
    case False
    then have "nat (sint n) \<le> nat (sint i)" by simp
    then have empty: "[nat (sint i)..<nat (sint n)] = []" by simp
    have "segments_loop L ctx l n i t = t"
      using False by (subst segments_loop.simps) simp
    then show ?thesis unfolding empty by simp
  qed
qed

section \<open>What the native methods compute\<close>

lemma initContext_eq:
  "initContext L s model_path n =
     (reinterpret_cast_jlong (fst (library_load L s model_path)),
      s\<lparr>g_n_threads := (if 0 < sint n then n else 4),
        jni_env := (jni_env s)
          \<lparr>env_calls := env_calls (jni_env s) @ initContext_env_calls (jni_env s) model_path\<rparr>,
        whisper_state := snd (library_load L s model_path)\<rparr>)"
  by (simp add: initContext_def library_load_def load_params_def Let_def split_beta
      c_str_at_GetStringUTFChars Release_GetStringUTFChars)

lemma transcribeAudio_eq:
  "transcribeAudio L s h a r lang tr =
     ((if fst (library_decode L s h a lang tr) = 0
       then segments_loop L (reinterpret_cast_ctx h) (snd (library_decode L s h a lang tr))
              (whisper_full_n_segments L (reinterpret_cast_ctx h)
                 (snd (library_decode L s h a lang tr))) 0 []
       else []),
      s\<lparr>jni_env := (jni_env s)
          \<lparr>env_calls := env_calls (jni_env s) @ transcribeAudio_env_calls (jni_env s) a lang\<rparr>,
        whisper_state := snd (library_decode L s h a lang tr)\<rparr>)"
  by (simp add: transcribeAudio_def library_decode_def decode_params_def Let_def split_beta
      NewStringUTF_def c_str_at_GetStringUTFChars floats_at_borrowed release_both
      GetArrayLength_def)

lemma releaseContext_eq:
  "releaseContext L s h =
     s\<lparr>whisper_state := whisper_free L (reinterpret_cast_ctx h) (whisper_state s)\<rparr>"
  by (simp add: releaseContext_def)

lemma recording_default_params:
  "whisper_full_default_params (recording L) = whisper_full_default_params L"
  "whisper_context_default_params (recording L) = whisper_context_default_params L"
  by (simp_all add: recording_def)

lemma calls_initContext:
  "calls (snd (initContext (recording L) s model_path n)) =
     calls s @ [Init_call model_path ((whisper_context_default_params L)\<lparr>use_gpu := False\<rparr>)]"
  by (simp add: initContext_eq library_load_def load_params_def calls_def recording_def)

lemma calls_transcribeAudio:
  "calls (snd (transcribeAudio (recording L) s h a r lang tr)) =
     calls s @ [Full_call (reinterpret_cast_ctx h) (decode_params L (g_n_threads s) lang tr)
                  (float_arrays (jni_env s) a) (GetArrayLength (jni_env s) a)]"
  by (simp add: transcribeAudio_eq library_decode_def decode_params_def calls_def recording_def)

lemma frame_transcribeAudio:
  "g_n_threads (snd (transcribeAudio L s h a r lang tr)) = g_n_threads s"
  "float_arrays (jni_env (snd (transcribeAudio L s h a r lang tr))) = float_arrays (jni_env s)"
  "native_buffers (jni_env (snd (transcribeAudio L s h a r lang tr))) =
     native_buffers (jni_env s)"
  "pending_exception (jni_env (snd (transcribeAudio L s h a r lang tr))) =
     pending_exception (jni_env s)"
  "android_log (snd (transcribeAudio L s h a r lang tr)) = android_log s"
  by (simp_all add: transcribeAudio_eq)

lemma frame_initContext:
  "g_n_threads (snd (initContext L s model_path n)) = (if 0 < sint n then n else 4)"
  "float_arrays (jni_env (snd (initContext L s model_path n))) = float_arrays (jni_env s)"
  "native_buffers (jni_env (snd (initContext L s model_path n))) = native_buffers (jni_env s)"
  by (simp_all add: initContext_eq)

lemma frame_native_method:
  "float_arrays (jni_env (native_method L s c)) = float_arrays (jni_env s)"
  by (cases c) (simp_all add: frame_initContext frame_transcribeAudio releaseContext_eq)

lemma float_arrays_run: "float_arrays (jni_env (run L s cs)) = float_arrays (jni_env s)"
  unfolding run_def
  by (induction cs arbitrary: s) (simp_all add: frame_native_method)

lemma g_n_threads_run:
  "g_n_threads (run L s cs) =
     (case last_init cs of
        None \<Rightarrow> g_n_threads s
      | Some n \<Rightarrow> (if 0 < sint n then n else 4))"
  unfolding run_def
proof (induction cs arbitrary: s)
  case Nil
  show ?case by simp
next
  case (Cons c cs)
  show ?case
  proof (cases "last_init cs")
    case (Some n)
    then show ?thesis using Cons.IH [of "native_method L s c"] by simp
  next
    case None
    then show ?thesis
      using Cons.IH [of "native_method L s c"]
      by (cases c) (simp_all add: frame_initContext frame_transcribeAudio releaseContext_eq)
  qed
qed

lemma g_n_threads_run_loaded:
  "g_n_threads (run L (loaded e l) cs) = configured_thread_count cs"
  by (simp add: g_n_threads_run configured_thread_count_def loaded_def split: option.splits)

lemma cast_round_trip:
  "reinterpret_cast_ctx (reinterpret_cast_jlong p) = p"
  "reinterpret_cast_jlong (reinterpret_cast_ctx k) = k"
  by (cases p) (simp_all add: reinterpret_cast_ctx_def reinterpret_cast_jlong_def)

lemma cast_null: "(reinterpret_cast_jlong p = 0) = (p = nullptr)"
  by (cases p) (simp add: reinterpret_cast_jlong_def nullptr_def)

text \<open>
  Released with \<^verbatim>\<open>JNI_ABORT\<close>, a buffer of elements never reaches the Java array, whatever
  the buffer holds at that time.
\<close>

lemma abort_writes_nothing:
  "float_arrays (ReleaseFloatArrayElements e a p JNI_ABORT) = float_arrays e"
  by (simp add: ReleaseFloatArrayElements_def Let_def split: option.splits native_buffer.splits)

text \<open>
  The other two modes do reach it: once the native copy differs from the array, releasing
  it with mode 0 or with \<^verbatim>\<open>JNI_COMMIT\<close> stores the copy into the array.
\<close>

lemma copy_back_writes:
  assumes "map_of (native_buffers e) p = Some (FloatElements a' xs)" and "m \<noteq> JNI_ABORT"
  shows "float_arrays (ReleaseFloatArrayElements e a p m) a = xs"
  using assms by (cases m) (simp_all add: ReleaseFloatArrayElements_def Let_def)

lemma segments_loop_none: "segments_loop L ctx l 0 0 t = t"
  by (subst segments_loop.simps) simp

text \<open>
  Recording changes nothing: under \<open>recording L\<close> each native method returns what it returns
  under \<open>L\<close>, and leaves the process that it leaves under \<open>L\<close>, with the list of calls
  beside it.
\<close>

lemma segments_loop_recording:
  "segments_loop (recording L) ctx st n 0 [] = segments_loop L ctx (fst st) n 0 []"
proof -
  have get: "whisper_full_get_segment_text (recording L) ctx i st =
             whisper_full_get_segment_text L ctx i (fst st)" for i
    by (simp add: recording_def)
  have zero: "0 \<le> sint (0 :: jint)" by simp
  show ?thesis
    unfolding segments_loop_from [OF zero] get ..
qed

lemma recording_initContext:
  "fst (initContext (recording L) s model_path n) = fst (initContext L (underlying s) model_path n)"
  "underlying (snd (initContext (recording L) s model_path n)) =
     snd (initContext L (underlying s) model_path n)"
  by (simp_all add: initContext_eq library_load_def load_params_def recording_def underlying_def)

lemma recording_transcribeAudio:
  "fst (transcribeAudio (recording L) s h a r lang tr) =
     fst (transcribeAudio L (underlying s) h a r lang tr)"
  "underlying (snd (transcribeAudio (recording L) s h a r lang tr)) =
     snd (transcribeAudio L (underlying s) h a r lang tr)"
proof -
  have decode: "library_decode (recording L) s h a lang tr =
                  (fst (library_decode L (underlying s) h a lang tr),
                   (snd (library_decode L (underlying s) h a lang tr),
                    snd (whisper_state s) @
                      [Full_call (reinterpret_cast_ctx h) (decode_params L (g_n_threads s) lang tr)
                         (float_arrays (jni_env s) a) (GetArrayLength (jni_env s) a)]))"
    by (simp add: library_decode_def decode_params_def recording_def underlying_def)
  have n: "whisper_full_n_segments (recording L) ctx st = whisper_full_n_segments L ctx (fst st)"
    for ctx st
    by (simp add: recording_def)
  show "fst (transcribeAudio (recording L) s h a r lang tr) =
          fst (transcribeAudio L (underlying s) h a r lang tr)"
    by (simp add: transcribeAudio_eq decode n segments_loop_recording)
  show "underlying (snd (transcribeAudio (recording L) s h a r lang tr)) =
          snd (transcribeAudio L (underlying s) h a r lang tr)"
    by (simp add: transcribeAudio_eq decode underlying_def)
qed

lemma recording_releaseContext:
  "underlying (releaseContext (recording L) s h) = releaseContext L (underlying s) h"
  by (simp add: releaseContext_eq recording_def underlying_def)

text \<open>The \<^verbatim>\<open>sample_rate\<close> argument has no influence on \<^verbatim>\<open>transcribeAudio\<close>.\<close>

lemma sample_rate_unused:
  "transcribeAudio L s h a r lang tr = transcribeAudio L s h a r' lang tr"
  by (simp add: transcribeAudio_eq)

section \<open>Properties\<close>

text \<open>
  C1. When the decode invocation of a \<^verbatim>\<open>transcribeAudio\<close> call returns status 0, the string
  returned is the concatenation, in segment order, of the text of every decoded segment,
  each followed by one space; the last segment's space is there too, and no text is left out.
\<close>

theorem transcribeAudio_success:
  assumes "fst (library_decode L s h a lang tr) = 0"
  shows "fst (transcribeAudio L s h a r lang tr) =
           concat (map (\<lambda>text. text @ '' '')
             (decoded_segments L (reinterpret_cast_ctx h) (snd (library_decode L s h a lang tr))))"
proof -
  let ?ctx = "reinterpret_cast_ctx h"
  let ?l = "snd (library_decode L s h a lang tr)"
  have "fst (transcribeAudio L s h a r lang tr) =
          segments_loop L ?ctx ?l (whisper_full_n_segments L ?ctx ?l) 0 []"
    using assms by (simp add: transcribeAudio_eq)
  also have "\<dots> = [] @ concat (map (\<lambda>k. whisper_full_get_segment_text L ?ctx (word_of_nat k) ?l @ '' '')
                     [nat (sint (0 :: jint))..<nat (sint (whisper_full_n_segments L ?ctx ?l))])"
    by (rule segments_loop_from) simp
  also have "\<dots> = concat (map (\<lambda>text. text @ '' '') (decoded_segments L ?ctx ?l))"
    by (simp add: decoded_segments_def comp_def)
  finally show ?thesis .
qed

theorem transcribeAudio_success_example:
  "fst (library_decode example_library example_process 4096 7 ''en'' False) = 0 \<and>
   fst (transcribeAudio example_library example_process 4096 7 16000 ''en'' False) =
     ''hello world ''"
proof -
  have ok: "fst (library_decode example_library example_process 4096 7 ''en'' False) = 0"
    by (simp add: library_decode_def decode_params_def example_library_def
        example_process_def example_env_def loaded_def)
  have segs: "decoded_segments example_library (reinterpret_cast_ctx 4096)
                (snd (library_decode example_library example_process 4096 7 ''en'' False)) =
              [''hello'', ''world'']"
    by (simp add: decoded_segments_def library_decode_def decode_params_def example_library_def
        example_process_def example_env_def loaded_def upt_rec)
  show ?thesis
    using ok transcribeAudio_success [OF ok, of 16000] by (simp add: segs)
qed

text \<open>
  C2. When the decode invocation of a \<^verbatim>\<open>transcribeAudio\<close> call returns a status other than 0,
  the call returns the empty string, whatever the status is; it leaves no Java exception
  pending that was not pending before, and it writes nothing to the log.
\<close>

theorem transcribeAudio_failure:
  assumes "fst (library_decode L s h a lang tr) \<noteq> 0"
  shows "fst (transcribeAudio L s h a r lang tr) = [] \<and>
         pending_exception (jni_env (snd (transcribeAudio L s h a r lang tr))) =
           pending_exception (jni_env s) \<and>
         android_log (snd (transcribeAudio L s h a r lang tr)) = android_log s"
  using assms by (simp add: transcribeAudio_eq)

theorem transcribeAudio_failure_example:
  "fst (library_decode example_library example_process 4096 7 ''xx'' False) = - 1 \<and>
   fst (transcribeAudio example_library example_process 4096 7 16000 ''xx'' False) = [] \<and>
   pending_exception
     (jni_env (snd (transcribeAudio example_library example_process 4096 7 16000 ''xx'' False))) =
     None"
proof -
  have status: "fst (library_decode example_library example_process 4096 7 ''xx'' False) = - 1"
    by (simp add: library_decode_def decode_params_def example_library_def
        example_process_def example_env_def loaded_def)
  then have failed: "fst (library_decode example_library example_process 4096 7 ''xx'' False) \<noteq> 0"
    by simp
  show ?thesis
    using status transcribeAudio_failure [OF failed, of 16000]
    by (simp add: example_process_def example_env_def loaded_def)
qed

text \<open>
  C3. After \<^verbatim>\<open>initContext\<close> the configured thread count is 4 when the thread-count argument
  is zero or negative, and exactly the argument when it is positive.
\<close>

theorem initContext_thread_count:
  "g_n_threads (snd (initContext L s model_path n)) = (if sint n \<le> 0 then 4 else n)"
  by (simp add: initContext_eq)

theorem initContext_thread_count_boundary:
  "g_n_threads (snd (initContext example_library example_process ''ggml-tiny.bin'' 0)) = 4 \<and>
   g_n_threads (snd (initContext example_library example_process ''ggml-tiny.bin'' (- 1))) = 4 \<and>
   g_n_threads (snd (initContext example_library example_process ''ggml-tiny.bin'' (- 2147483648))) = 4 \<and>
   g_n_threads (snd (initContext example_library example_process ''ggml-tiny.bin'' 1)) = 1 \<and>
   g_n_threads (snd (initContext example_library example_process ''ggml-tiny.bin'' 8)) = 8 \<and>
   g_n_threads (snd (initContext example_library example_process ''ggml-tiny.bin'' 2147483647)) =
     2147483647"
  using initContext_thread_count [of example_library example_process "''ggml-tiny.bin''" 0]
    initContext_thread_count [of example_library example_process "''ggml-tiny.bin''" "- 1"]
    initContext_thread_count [of example_library example_process "''ggml-tiny.bin''" "- 2147483648"]
    initContext_thread_count [of example_library example_process "''ggml-tiny.bin''" 1]
    initContext_thread_count [of example_library example_process "''ggml-tiny.bin''" 8]
    initContext_thread_count [of example_library example_process "''ggml-tiny.bin''" 2147483647]
  by simp

text \<open>
  C4. The thread count is one variable of the process. It is 4 when the library is loaded;
  \<^verbatim>\<open>initContext\<close> overwrites it with a value that depends on its thread-count argument
  only, whatever the variable held and whatever the model load returns;
  \<^verbatim>\<open>transcribeAudio\<close> does not change it. So after any list of calls it holds what the most
  recent \<^verbatim>\<open>initContext\<close> configured (4 if there was none), and a \<^verbatim>\<open>transcribeAudio\<close> call that
  follows passes exactly this value to the decode as \<^verbatim>\<open>n_threads\<close>.
\<close>

theorem thread_count_flow:
  "g_n_threads (loaded e l) = 4 \<and>
   g_n_threads (snd (initContext L s model_path n)) =
     g_n_threads (snd (initContext L' s' model_path' n)) \<and>
   g_n_threads (snd (transcribeAudio L s h a r lang tr)) = g_n_threads s \<and>
   g_n_threads (run L (loaded e l) cs) = configured_thread_count cs \<and>
   calls (snd (transcribeAudio (recording L) (run (recording L) (loaded e (l, [])) cs)
                 h a r lang tr)) =
     calls (run (recording L) (loaded e (l, [])) cs) @
       [Full_call (reinterpret_cast_ctx h)
          ((whisper_full_default_params L WHISPER_SAMPLING_GREEDY)
             \<lparr>n_threads := configured_thread_count cs, translate := tr, language := lang\<rparr>)
          (float_arrays e a) (GetArrayLength e a)]"
proof (intro conjI)
  show "g_n_threads (loaded e l) = 4"
    by (simp add: loaded_def)
  show "g_n_threads (snd (initContext L s model_path n)) =
        g_n_threads (snd (initContext L' s' model_path' n))"
    by (simp add: frame_initContext)
  show "g_n_threads (snd (transcribeAudio L s h a r lang tr)) = g_n_threads s"
    by (rule frame_transcribeAudio)
  show "g_n_threads (run L (loaded e l) cs) = configured_thread_count cs"
    by (rule g_n_threads_run_loaded)
  have env: "float_arrays (jni_env (run (recording L) (loaded e (l, [])) cs)) = float_arrays e"
    by (simp add: float_arrays_run loaded_def)
  have threads: "g_n_threads (run (recording L) (loaded e (l, [])) cs) = configured_thread_count cs"
    by (rule g_n_threads_run_loaded)
  show "calls (snd (transcribeAudio (recording L) (run (recording L) (loaded e (l, [])) cs)
                 h a r lang tr)) =
     calls (run (recording L) (loaded e (l, [])) cs) @
       [Full_call (reinterpret_cast_ctx h)
          ((whisper_full_default_params L WHISPER_SAMPLING_GREEDY)
             \<lparr>n_threads := configured_thread_count cs, translate := tr, language := lang\<rparr>)
          (float_arrays e a) (GetArrayLength e a)]"
    by (simp add: calls_transcribeAudio env threads decode_params_def GetArrayLength_def)
qed

text \<open>
  C5. The handle that \<^verbatim>\<open>initContext\<close> returns is the pointer returned by the library's model
  load, cast to \<^verbatim>\<open>jlong\<close>: the cast back gives that pointer again, and the handle is 0 exactly
  when the library returned the null pointer. Nothing else enters the handle.
\<close>

theorem initContext_handle:
  "fst (initContext L s model_path n) =
     reinterpret_cast_jlong (fst (library_load L s model_path)) \<and>
   reinterpret_cast_ctx (fst (initContext L s model_path n)) =
     fst (library_load L s model_path) \<and>
   (fst (initContext L s model_path n) = 0) = (fst (library_load L s model_path) = nullptr)"
  by (simp add: initContext_eq cast_round_trip cast_null)

theorem initContext_handle_example:
  "fst (initContext example_library example_process ''ggml-tiny.bin'' 4) = 4096 \<and>
   fst (initContext example_library example_process ''no-such-file'' 4) = 0"
proof -
  have load: "fst (library_load example_library example_process ''ggml-tiny.bin'') = Ptr 4096"
    by (simp add: library_load_def example_library_def)
  have fail: "fst (library_load example_library example_process ''no-such-file'') = nullptr"
    by (simp add: library_load_def example_library_def)
  have "fst (initContext example_library example_process ''ggml-tiny.bin'' 4) = 4096"
    using initContext_handle [of example_library example_process "''ggml-tiny.bin''" 4]
    by (simp add: load reinterpret_cast_jlong_def)
  moreover have "fst (initContext example_library example_process ''no-such-file'' 4) = 0"
    using initContext_handle [of example_library example_process "''no-such-file''" 4]
    by (simp add: fail reinterpret_cast_jlong_def nullptr_def)
  ultimately show ?thesis by (rule conjI)
qed

text \<open>
  C6. Two \<^verbatim>\<open>transcribeAudio\<close> calls in a row on one context: each passes to the decode the
  library's greedy defaults with \<^verbatim>\<open>n_threads\<close>, \<^verbatim>\<open>translate\<close> and \<^verbatim>\<open>language\<close> set, and the
  translate flag and the language are the ones of that call's own arguments. Nothing of the
  first call's arguments is in the second call's configuration.
\<close>

theorem decode_params_per_call:
  "calls (snd (transcribeAudio (recording L)
                 (snd (transcribeAudio (recording L) s h a1 r1 lang1 tr1)) h a2 r2 lang2 tr2)) =
     calls s @
       [Full_call (reinterpret_cast_ctx h)
          ((whisper_full_default_params L WHISPER_SAMPLING_GREEDY)
             \<lparr>n_threads := g_n_threads s, translate := tr1, language := lang1\<rparr>)
          (float_arrays (jni_env s) a1) (GetArrayLength (jni_env s) a1),
        Full_call (reinterpret_cast_ctx h)
          ((whisper_full_default_params L WHISPER_SAMPLING_GREEDY)
             \<lparr>n_threads := g_n_threads s, translate := tr2, language := lang2\<rparr>)
          (float_arrays (jni_env s) a2) (GetArrayLength (jni_env s) a2)]"
  by (simp add: calls_transcribeAudio frame_transcribeAudio decode_params_def GetArrayLength_def)

text \<open>
  C7. \<^verbatim>\<open>initContext\<close> makes one call into the library, the model load, and the context
  parameters of this call are the library's defaults with \<^verbatim>\<open>use_gpu\<close> set to false, whatever
  the arguments of \<^verbatim>\<open>initContext\<close> are.
\<close>

theorem initContext_cpu_only:
  "calls (snd (initContext (recording L) s model_path n)) =
     calls s @ [Init_call model_path ((whisper_context_default_params L)\<lparr>use_gpu := False\<rparr>)] \<and>
   use_gpu ((whisper_context_default_params L)\<lparr>use_gpu := False\<rparr>) = False \<and>
   cparams_other ((whisper_context_default_params L)\<lparr>use_gpu := False\<rparr>) =
     cparams_other (whisper_context_default_params L)"
  by (simp add: calls_initContext)

text \<open>
  C8. \<^verbatim>\<open>transcribeAudio\<close> only borrows the samples. The calls of buffer functions that it
  makes are, in this order: the borrow of the elements of \<^verbatim>\<open>audio_data\<close>, the borrow of the
  characters of \<^verbatim>\<open>language\<close>, the release of the elements, at the pointer that the borrow
  returned and in mode \<^verbatim>\<open>JNI_ABORT\<close>, and the release of the characters. A release in mode
  \<^verbatim>\<open>JNI_ABORT\<close> stores nothing into a Java array, whatever the native copy holds by then. After
  the call every \<^verbatim>\<open>float[]\<close> of the Java heap holds what it held before, the native buffers
  handed out and not yet released are the ones from before the call, and the process differs
  from the one before the call in the list of calls made and in the library's own state
  only: the binding keeps no pointer.
\<close>

theorem transcribeAudio_borrows_audio:
  "env_calls (jni_env (snd (transcribeAudio L s h a r lang tr))) =
     env_calls (jni_env s) @
       [Env_GetFloatArrayElements a (fst (GetFloatArrayElements (jni_env s) a)),
        Env_GetStringUTFChars lang
          (fst (GetStringUTFChars (snd (GetFloatArrayElements (jni_env s) a)) lang)),
        Env_ReleaseFloatArrayElements a (fst (GetFloatArrayElements (jni_env s) a)) JNI_ABORT,
        Env_ReleaseStringUTFChars lang
          (fst (GetStringUTFChars (snd (GetFloatArrayElements (jni_env s) a)) lang))] \<and>
   float_arrays (ReleaseFloatArrayElements e' a p' JNI_ABORT) = float_arrays e' \<and>
   float_arrays (jni_env (snd (transcribeAudio L s h a r lang tr))) = float_arrays (jni_env s) \<and>
   native_buffers (jni_env (snd (transcribeAudio L s h a r lang tr))) =
     native_buffers (jni_env s) \<and>
   snd (transcribeAudio L s h a r lang tr) =
     s\<lparr>jni_env := (jni_env s)
         \<lparr>env_calls := env_calls (jni_env (snd (transcribeAudio L s h a r lang tr)))\<rparr>,
       whisper_state := snd (library_decode L s h a lang tr)\<rparr>"
  by (simp add: transcribeAudio_eq transcribeAudio_env_calls_def abort_writes_nothing)

theorem transcribeAudio_borrows_audio_example:
  "env_calls (jni_env (snd (transcribeAudio example_library example_process 4096 7 16000
                             ''en'' False))) =
     [Env_GetFloatArrayElements 7 1, Env_GetStringUTFChars ''en'' 2,
      Env_ReleaseFloatArrayElements 7 1 JNI_ABORT, Env_ReleaseStringUTFChars ''en'' 2] \<and>
   float_arrays (jni_env (snd (transcribeAudio example_library example_process 4096 7 16000
                                ''en'' False))) 7 = [1, 2, 3, 4] \<and>
   native_buffers (jni_env (snd (transcribeAudio example_library example_process 4096 7 16000
                                  ''en'' False))) = []"
  using transcribeAudio_borrows_audio [of example_library example_process 4096 7 16000 "''en''" False]
  by (simp add: example_process_def example_env_def loaded_def GetFloatArrayElements_def
      GetStringUTFChars_def fresh_addr_def Let_def)

text \<open>
  C9. A decode that fails and a decode that succeeds with zero segments both make
  \<^verbatim>\<open>transcribeAudio\<close> return the empty string: the returned value does not tell them apart.
\<close>

theorem empty_result_ambiguous:
  assumes "fst (library_decode L s h a lang tr) \<noteq> 0"
    and "fst (library_decode L' s' h' a' lang' tr') = 0"
    and "whisper_full_n_segments L' (reinterpret_cast_ctx h')
           (snd (library_decode L' s' h' a' lang' tr')) = 0"
  shows "fst (transcribeAudio L s h a r lang tr) = [] \<and>
         fst (transcribeAudio L' s' h' a' r' lang' tr') = [] \<and>
         fst (transcribeAudio L s h a r lang tr) = fst (transcribeAudio L' s' h' a' r' lang' tr')"
  using assms by (simp add: transcribeAudio_eq segments_loop_none)

theorem empty_result_ambiguous_example:
  "fst (library_decode example_library example_process 4096 7 ''xx'' False) = - 1 \<and>
   fst (library_decode example_library example_process 4096 0 ''en'' False) = 0 \<and>
   whisper_full_n_segments example_library (reinterpret_cast_ctx 4096)
     (snd (library_decode example_library example_process 4096 0 ''en'' False)) = 0 \<and>
   fst (transcribeAudio example_library example_process 4096 7 16000 ''xx'' False) =
     fst (transcribeAudio example_library example_process 4096 0 16000 ''en'' False)"
proof -
  have status: "fst (library_decode example_library example_process 4096 7 ''xx'' False) = - 1"
    by (simp add: library_decode_def decode_params_def example_library_def
        example_process_def example_env_def loaded_def)
  then have failed: "fst (library_decode example_library example_process 4096 7 ''xx'' False) \<noteq> 0"
    by simp
  have ok: "fst (library_decode example_library example_process 4096 0 ''en'' False) = 0"
    by (simp add: library_decode_def decode_params_def example_library_def
        example_process_def example_env_def loaded_def)
  have none: "whisper_full_n_segments example_library (reinterpret_cast_ctx 4096)
                (snd (library_decode example_library example_process 4096 0 ''en'' False)) = 0"
    by (simp add: library_decode_def decode_params_def example_library_def
        example_process_def example_env_def loaded_def)
  have "fst (transcribeAudio example_library example_process 4096 7 16000 ''xx'' False) =
        fst (transcribeAudio example_library example_process 4096 0 16000 ''en'' False)"
    using empty_result_ambiguous [OF failed ok none, of 16000 16000] by (rule conjunct2 [THEN conjunct2])
  with status ok none show ?thesis by (intro conjI)
qed

text \<open>
  C10. \<^verbatim>\<open>transcribeAudio\<close> tests its context handle in no way. For every 64-bit value, the
  decode is called with the pointer that has exactly these bits, and what the method returns
  is what the library's decode at this pointer gives. The handle 0, which a failed
  \<^verbatim>\<open>initContext\<close> returns, is passed as the null pointer.
\<close>

theorem transcribeAudio_unchecked_handle:
  "calls (snd (transcribeAudio (recording L) s h a r lang tr)) =
     calls s @
       [Full_call (reinterpret_cast_ctx h) (decode_params L (g_n_threads s) lang tr)
          (float_arrays (jni_env s) a) (GetArrayLength (jni_env s) a)] \<and>
   address (reinterpret_cast_ctx h) = h \<and>
   reinterpret_cast_ctx 0 = nullptr \<and>
   calls (snd (transcribeAudio (recording L) s 0 a r lang tr)) =
     calls s @
       [Full_call nullptr (decode_params L (g_n_threads s) lang tr)
          (float_arrays (jni_env s) a) (GetArrayLength (jni_env s) a)]"
  by (simp add: calls_transcribeAudio reinterpret_cast_ctx_def nullptr_def)

end
